theory Spec2Isabelle
  imports Main "HOL-Library.Sublist" "HOL-Library.Word"
begin

section \<open>Errors and formatted messages\<close>

text \<open>
  The operating-system calls that \<^verbatim>\<open>markers.go\<close> issues against the marker
  directory \<^verbatim>\<open>m.dir\<close>. The string is the marker name that
  \<^verbatim>\<open>filepath.Join(m.dir, name)\<close> turns into a path below the directory.
\<close>

datatype syscall =
    SysMkdirAll
  | SysCreate string
  | SysOpenExcl string
  | SysStat string
  | SysRemove string

text \<open>
  Go errors as values. \<open>Errorf fmt args w\<close> is \<^verbatim>\<open>fmt.Errorf(fmt, args..., w)\<close>: the
  format string, its \<^verbatim>\<open>%s\<close> arguments and the error wrapped by \<^verbatim>\<open>%w\<close>, if any.
  \<open>ErrExist\<close> and \<open>ErrNotExist\<close> are the errors recognised by \<^verbatim>\<open>os.IsExist\<close> and
  \<^verbatim>\<open>os.IsNotExist\<close>; \<open>ErrOther c\<close> is any other failure of the call \<open>c\<close>
  (permission denied, disk full, I/O error). \<open>External s\<close> is an error produced by a
  collaborator outside the modelled code (a step body, the prompt).
\<close>

datatype error =
    Errorf string "string list" "error option"
  | ErrExist
  | ErrNotExist
  | ErrOther syscall
  | External string

definition IsExist :: "error \<Rightarrow> bool" where
  "IsExist e = (e = ErrExist)"

definition IsNotExist :: "error \<Rightarrow> bool" where
  "IsNotExist e = (e = ErrNotExist)"

section \<open>The marker directory\<close>

text \<open>
  The part of the machine that \<^verbatim>\<open>Markers\<close> touches: whether the directory
  \<^verbatim>\<open>m.dir\<close> exists, the names of the entries in it, the calls that currently fail with
  an error other than exist/not-exist, and the calls issued so far (oldest first).
\<close>

record markerdir =
  present :: bool
  entries :: "string set"
  denied :: "syscall set"
  trace :: "syscall list"

definition issue :: "syscall \<Rightarrow> markerdir \<Rightarrow> markerdir" where
  "issue c fs = fs\<lparr>trace := trace fs @ [c]\<rparr>"

definition has_entry :: "markerdir \<Rightarrow> string \<Rightarrow> bool" where
  "has_entry fs name = (present fs \<and> name \<in> entries fs)"

text \<open>\<^verbatim>\<open>os.MkdirAll(m.dir, 0755)\<close>: succeeds on an existing directory, creates a missing one.\<close>

definition os_MkdirAll :: "markerdir \<Rightarrow> error option \<times> markerdir" where
  "os_MkdirAll fs =
     (let fs1 = issue SysMkdirAll fs in
      if SysMkdirAll \<in> denied fs then (Some (ErrOther SysMkdirAll), fs1)
      else if present fs then (None, fs1)
      else (None, fs1\<lparr>present := True, entries := {}\<rparr>))"

text \<open>\<^verbatim>\<open>os.Create(path)\<close>: creates or truncates the file.\<close>

definition os_Create :: "string \<Rightarrow> markerdir \<Rightarrow> error option \<times> markerdir" where
  "os_Create name fs =
     (let fs1 = issue (SysCreate name) fs in
      if SysCreate name \<in> denied fs then (Some (ErrOther (SysCreate name)), fs1)
      else if \<not> present fs then (Some ErrNotExist, fs1)
      else (None, fs1\<lparr>entries := insert name (entries fs)\<rparr>))"

text \<open>\<^verbatim>\<open>os.OpenFile(path, O_CREATE|O_EXCL|O_WRONLY, 0644)\<close>: fails if the file exists.\<close>

definition os_OpenFile_excl :: "string \<Rightarrow> markerdir \<Rightarrow> error option \<times> markerdir" where
  "os_OpenFile_excl name fs =
     (let fs1 = issue (SysOpenExcl name) fs in
      if SysOpenExcl name \<in> denied fs then (Some (ErrOther (SysOpenExcl name)), fs1)
      else if \<not> present fs then (Some ErrNotExist, fs1)
      else if name \<in> entries fs then (Some ErrExist, fs1)
      else (None, fs1\<lparr>entries := insert name (entries fs)\<rparr>))"

text \<open>\<^verbatim>\<open>os.Stat(path)\<close>.\<close>

definition os_Stat :: "string \<Rightarrow> markerdir \<Rightarrow> error option \<times> markerdir" where
  "os_Stat name fs =
     (let fs1 = issue (SysStat name) fs in
      if SysStat name \<in> denied fs then (Some (ErrOther (SysStat name)), fs1)
      else if has_entry fs name then (None, fs1)
      else (Some ErrNotExist, fs1))"

text \<open>\<^verbatim>\<open>os.Remove(path)\<close>.\<close>

definition os_Remove :: "string \<Rightarrow> markerdir \<Rightarrow> error option \<times> markerdir" where
  "os_Remove name fs =
     (let fs1 = issue (SysRemove name) fs in
      if SysRemove name \<in> denied fs then (Some (ErrOther (SysRemove name)), fs1)
      else if has_entry fs name then (None, fs1\<lparr>entries := entries fs - {name}\<rparr>)
      else (Some ErrNotExist, fs1))"

section \<open>Markers (\<^verbatim>\<open>internal/config/markers.go\<close>)\<close>

text \<open>\<^verbatim>\<open>strings.Contains(s, substr)\<close>.\<close>

definition strings_Contains :: "string \<Rightarrow> string \<Rightarrow> bool" where
  "strings_Contains s substr = sublist substr s"

definition validateMarkerName :: "string \<Rightarrow> error option" where
  "validateMarkerName name =
     (if name = [] then Some (Errorf ''marker name cannot be empty'' [] None)
      else if strings_Contains name ''/'' \<or> strings_Contains name [CHR 0x5C]
        then Some (Errorf ''marker name cannot contain path separators: %s'' [name] None)
      else if name = ''..'' \<or> name = ''.''
        then Some (Errorf (''marker name cannot be '' @ [CHR 0x27] @ ''.'' @ [CHR 0x27]
                           @ '' or '' @ [CHR 0x27] @ ''..'' @ [CHR 0x27] @ '': %s'') [name] None)
      else None)"

definition Create :: "string \<Rightarrow> markerdir \<Rightarrow> error option \<times> markerdir" where
  "Create name fs =
     (case validateMarkerName name of
        Some err \<Rightarrow> (Some err, fs)
      | None \<Rightarrow>
          (case os_MkdirAll fs of
             (Some err, fs1) \<Rightarrow>
               (Some (Errorf ''failed to create marker directory: %w'' [] (Some err)), fs1)
           | (None, fs1) \<Rightarrow>
               (case os_Create name fs1 of
                  (Some err, fs2) \<Rightarrow>
                    (Some (Errorf ''failed to create marker file: %w'' [] (Some err)), fs2)
                | (None, fs2) \<Rightarrow> (None, fs2))))"

definition CreateIfNotExists :: "string \<Rightarrow> markerdir \<Rightarrow> (bool \<times> error option) \<times> markerdir" where
  "CreateIfNotExists name fs =
     (case validateMarkerName name of
        Some err \<Rightarrow> ((False, Some err), fs)
      | None \<Rightarrow>
          (case os_MkdirAll fs of
             (Some err, fs1) \<Rightarrow>
               ((False, Some (Errorf ''failed to create marker directory: %w'' [] (Some err))), fs1)
           | (None, fs1) \<Rightarrow>
               (case os_OpenFile_excl name fs1 of
                  (Some err, fs2) \<Rightarrow>
                    (if IsExist err then ((False, None), fs2)
                     else ((False, Some (Errorf ''failed to create marker file: %w'' [] (Some err))),
                           fs2))
                | (None, fs2) \<Rightarrow> ((True, None), fs2))))"

definition Exists :: "string \<Rightarrow> markerdir \<Rightarrow> (bool \<times> error option) \<times> markerdir" where
  "Exists name fs =
     (case validateMarkerName name of
        Some err \<Rightarrow> ((False, Some err), fs)
      | None \<Rightarrow>
          (case os_Stat name fs of
             (None, fs1) \<Rightarrow> ((True, None), fs1)
           | (Some err, fs1) \<Rightarrow>
               (if IsNotExist err then ((False, None), fs1)
                else ((False, Some (Errorf ''failed to check marker existence: %w'' [] (Some err))),
                      fs1))))"

definition Remove :: "string \<Rightarrow> markerdir \<Rightarrow> error option \<times> markerdir" where
  "Remove name fs =
     (case validateMarkerName name of
        Some err \<Rightarrow> (Some err, fs)
      | None \<Rightarrow>
          (case os_Remove name fs of
             (Some err, fs1) \<Rightarrow> (if IsNotExist err then (None, fs1) else (Some err, fs1))
           | (None, fs1) \<Rightarrow> (None, fs1)))"

definition MarkFailed :: "string \<Rightarrow> markerdir \<Rightarrow> error option \<times> markerdir" where
  "MarkFailed name fs = Create (name @ ''-failed'') fs"

definition ClearFailure :: "string \<Rightarrow> markerdir \<Rightarrow> error option \<times> markerdir" where
  "ClearFailure name fs = Remove (name @ ''-failed'') fs"

definition IsFailed :: "string \<Rightarrow> markerdir \<Rightarrow> (bool \<times> error option) \<times> markerdir" where
  "IsFailed name fs = Exists (name @ ''-failed'') fs"

datatype StepStatus = StepNotStarted | StepCompleted | StepFailed

definition GetStatus :: "string \<Rightarrow> markerdir \<Rightarrow> (StepStatus \<times> error option) \<times> markerdir" where
  "GetStatus name fs =
     (case IsFailed name fs of
        ((failed, Some err), fs1) \<Rightarrow> ((StepNotStarted, Some err), fs1)
      | ((failed, None), fs1) \<Rightarrow>
          (if failed then ((StepFailed, None), fs1)
           else
             (case Exists name fs1 of
                ((completed, Some err), fs2) \<Rightarrow> ((StepNotStarted, Some err), fs2)
              | ((completed, None), fs2) \<Rightarrow>
                  (if completed then ((StepCompleted, None), fs2)
                   else ((StepNotStarted, None), fs2)))))"

section \<open>Legacy marker migration (\<^verbatim>\<open>internal/steps/marker_helpers.go\<close>)\<close>

text \<open>The \<^verbatim>\<open>for _, legacyName := range legacy\<close> loop of \<^verbatim>\<open>ensureCanonicalMarker\<close>.\<close>

fun ensureCanonicalMarker_loop ::
  "string \<Rightarrow> string list \<Rightarrow> markerdir \<Rightarrow> (bool \<times> error option) \<times> markerdir" where
  "ensureCanonicalMarker_loop canonical [] fs = ((False, None), fs)"
| "ensureCanonicalMarker_loop canonical (legacyName # rest) fs =
     (if legacyName = [] \<or> legacyName = canonical
        then ensureCanonicalMarker_loop canonical rest fs
      else
        (case Exists legacyName fs of
           ((legacyExists, Some err), fs1) \<Rightarrow> ((False, Some err), fs1)
         | ((legacyExists, None), fs1) \<Rightarrow>
             (if \<not> legacyExists then ensureCanonicalMarker_loop canonical rest fs1
              else
                (case CreateIfNotExists canonical fs1 of
                   ((wasCreated, Some err), fs2) \<Rightarrow> ((False, Some err), fs2)
                 | ((wasCreated, None), fs2) \<Rightarrow>
                     (if wasCreated then ((True, None), snd (Remove legacyName fs2))
                      else ((True, None), fs2))))))"

definition ensureCanonicalMarker ::
  "string \<Rightarrow> string list \<Rightarrow> markerdir \<Rightarrow> (bool \<times> error option) \<times> markerdir" where
  "ensureCanonicalMarker canonical legacy fs =
     (case Exists canonical fs of
        ((exists, Some err), fs1) \<Rightarrow> ((False, Some err), fs1)
      | ((exists, None), fs1) \<Rightarrow>
          (if exists then ((True, None), fs1)
           else ensureCanonicalMarker_loop canonical legacy fs1))"

section \<open>Console output\<close>

text \<open>
  The \<^verbatim>\<open>ui.UI\<close> package is not part of the modelled sources; only what the callers hand
  to it is recorded. A message is its level, its format string and the format's arguments,
  so \<^verbatim>\<open>ui.Warning(fmt.Sprintf("Failed to remove marker: %v", err))\<close> is
  \<open>Msg Warning ''Failed to remove marker: %v'' [ArgV err]\<close>.
\<close>

type_synonym FileMode = "32 word"

datatype fmtarg = ArgS string | ArgD int | ArgO FileMode | ArgV error

datatype level = Header | Info | Warning | Success

datatype uimsg = Msg level string "fmtarg list"

section \<open>Step orchestration (\<^verbatim>\<open>internal/cli\<close>)\<close>

text \<open>
  \<^verbatim>\<open>SetupContext\<close>. The Go struct holds pointers to the marker store and the console; here
  the context carries their state. \<open>Machine\<close> is everything else the step bodies act on
  (configuration file, system services, mounts), which the orchestrator never inspects.
\<close>

record 'w SetupContext =
  Markers :: markerdir
  UI :: "uimsg list"
  SkipWireGuard :: bool
  Machine :: 'w

text \<open>
  The collaborators whose code lies outside the modelled sources, taken as parameters:
  the console prompt and the seven step implementations of package \<^verbatim>\<open>steps\<close>. Each may
  read and change the whole context.
\<close>

record 'w collaborators =
  PromptYesNo :: "string \<Rightarrow> bool \<Rightarrow> 'w SetupContext \<Rightarrow> (bool \<times> error option) \<times> 'w SetupContext"
  PreflightChecker_RunAll :: "'w SetupContext \<Rightarrow> error option \<times> 'w SetupContext"
  UserConfigurator_Run :: "'w SetupContext \<Rightarrow> error option \<times> 'w SetupContext"
  DirectorySetup_Run :: "'w SetupContext \<Rightarrow> error option \<times> 'w SetupContext"
  WireGuardSetup_Run :: "'w SetupContext \<Rightarrow> error option \<times> 'w SetupContext"
  NFSConfigurator_Run :: "'w SetupContext \<Rightarrow> error option \<times> 'w SetupContext"
  ContainerSetup_Run :: "'w SetupContext \<Rightarrow> error option \<times> 'w SetupContext"
  Deployment_Run :: "'w SetupContext \<Rightarrow> error option \<times> 'w SetupContext"

definition ui_print :: "level \<Rightarrow> string \<Rightarrow> fmtarg list \<Rightarrow> 'w SetupContext \<Rightarrow> 'w SetupContext" where
  "ui_print lvl fmt args ctx = ctx\<lparr>UI := UI ctx @ [Msg lvl fmt args]\<rparr>"

record StepInfo =
  Name :: string
  ShortName :: string
  Description :: string
  MarkerName :: string
  Optional :: bool

definition GetAllSteps :: "StepInfo list" where
  "GetAllSteps =
    [\<lparr>Name = ''Pre-flight Check'', ShortName = ''preflight'',
      Description = ''Verify system requirements'',
      MarkerName = ''preflight-complete'', Optional = False\<rparr>,
     \<lparr>Name = ''User Setup'', ShortName = ''user'',
      Description = ''Configure user account and permissions'',
      MarkerName = ''user-setup-complete'', Optional = False\<rparr>,
     \<lparr>Name = ''Directory Setup'', ShortName = ''directory'',
      Description = ''Create directory structure'',
      MarkerName = ''directory-setup-complete'', Optional = False\<rparr>,
     \<lparr>Name = ''WireGuard Setup'', ShortName = ''wireguard'',
      Description = ''Configure VPN (optional)'',
      MarkerName = ''wireguard-setup-complete'', Optional = True\<rparr>,
     \<lparr>Name = ''NFS Setup'', ShortName = ''nfs'',
      Description = ''Configure network storage'',
      MarkerName = ''nfs-setup-complete'', Optional = False\<rparr>,
     \<lparr>Name = ''Container Setup'', ShortName = ''container'',
      Description = ''Configure container services'',
      MarkerName = ''container-setup-complete'', Optional = False\<rparr>,
     \<lparr>Name = ''Service Deployment'', ShortName = ''deployment'',
      Description = ''Deploy and start services'',
      MarkerName = ''service-deployment-complete'', Optional = False\<rparr>]"

definition IsStepComplete :: "string \<Rightarrow> 'w SetupContext \<Rightarrow> bool \<times> 'w SetupContext" where
  "IsStepComplete markerName ctx =
     (case Exists markerName (Markers ctx) of
        ((exists, Some err), fs1) \<Rightarrow> (False, ctx\<lparr>Markers := fs1\<rparr>)
      | ((exists, None), fs1) \<Rightarrow> (exists, ctx\<lparr>Markers := fs1\<rparr>))"

definition removeMarkerIfRerun :: "string \<Rightarrow> bool \<Rightarrow> 'w SetupContext \<Rightarrow> 'w SetupContext" where
  "removeMarkerIfRerun markerName rerun ctx =
     (if rerun then
        (case Remove markerName (Markers ctx) of
           (Some err, fs1) \<Rightarrow>
             ui_print Warning ''Failed to remove marker: %v'' [ArgV err] (ctx\<lparr>Markers := fs1\<rparr>)
         | (None, fs1) \<Rightarrow> ctx\<lparr>Markers := fs1\<rparr>)
      else ctx)"

text \<open>
  The seven runners \<^verbatim>\<open>runPreflight\<close> ... \<^verbatim>\<open>runDeployment\<close> have one body, which
  differs in the marker name, the message and the step implementation called at the end.
\<close>

definition runUnlessComplete ::
  "'w collaborators \<Rightarrow> string \<Rightarrow> string \<Rightarrow> ('w SetupContext \<Rightarrow> error option \<times> 'w SetupContext)
     \<Rightarrow> 'w SetupContext \<Rightarrow> error option \<times> 'w SetupContext" where
  "runUnlessComplete ext markerName already run ctx =
     (case IsStepComplete markerName ctx of
        (True, c1) \<Rightarrow>
          (case PromptYesNo ext ''Run again?'' False (ui_print Info already [] c1) of
             ((rerun, err), c2) \<Rightarrow>
               (if err \<noteq> None \<or> \<not> rerun then (None, c2)
                else run (removeMarkerIfRerun markerName rerun c2)))
      | (False, c1) \<Rightarrow> run c1)"

definition runPreflight :: "'w collaborators \<Rightarrow> 'w SetupContext \<Rightarrow> error option \<times> 'w SetupContext" where
  "runPreflight ext =
     runUnlessComplete ext ''preflight-complete'' ''Pre-flight check already completed''
       (PreflightChecker_RunAll ext)"

definition runUser :: "'w collaborators \<Rightarrow> 'w SetupContext \<Rightarrow> error option \<times> 'w SetupContext" where
  "runUser ext =
     runUnlessComplete ext ''user-setup-complete'' ''User setup already completed''
       (UserConfigurator_Run ext)"

definition runDirectory :: "'w collaborators \<Rightarrow> 'w SetupContext \<Rightarrow> error option \<times> 'w SetupContext" where
  "runDirectory ext =
     runUnlessComplete ext ''directory-setup-complete'' ''Directory setup already completed''
       (DirectorySetup_Run ext)"

definition runWireGuard :: "'w collaborators \<Rightarrow> 'w SetupContext \<Rightarrow> error option \<times> 'w SetupContext" where
  "runWireGuard ext =
     runUnlessComplete ext ''wireguard-setup-complete'' ''WireGuard setup already completed''
       (WireGuardSetup_Run ext)"

definition runNFS :: "'w collaborators \<Rightarrow> 'w SetupContext \<Rightarrow> error option \<times> 'w SetupContext" where
  "runNFS ext =
     runUnlessComplete ext ''nfs-setup-complete'' ''NFS setup already completed''
       (NFSConfigurator_Run ext)"

definition runContainer :: "'w collaborators \<Rightarrow> 'w SetupContext \<Rightarrow> error option \<times> 'w SetupContext" where
  "runContainer ext =
     runUnlessComplete ext ''container-setup-complete'' ''Container setup already completed''
       (ContainerSetup_Run ext)"

definition runDeployment :: "'w collaborators \<Rightarrow> 'w SetupContext \<Rightarrow> error option \<times> 'w SetupContext" where
  "runDeployment ext =
     runUnlessComplete ext ''service-deployment-complete'' ''Service deployment already completed''
       (Deployment_Run ext)"

text \<open>
  The \<^verbatim>\<open>switch shortName\<close> of \<^verbatim>\<open>RunStep\<close>: the marker name and the outcome of the
  runner it selects, or \<open>None\<close> in the \<^verbatim>\<open>default\<close> case.
\<close>

definition RunStep_switch ::
  "'w collaborators \<Rightarrow> 'w SetupContext \<Rightarrow> string
     \<Rightarrow> (string \<times> error option \<times> 'w SetupContext) option" where
  "RunStep_switch ext ctx shortName =
     (if shortName = ''preflight'' then Some (''preflight-complete'', runPreflight ext ctx)
      else if shortName = ''user'' then Some (''user-setup-complete'', runUser ext ctx)
      else if shortName = ''directory'' then Some (''directory-setup-complete'', runDirectory ext ctx)
      else if shortName = ''wireguard'' then Some (''wireguard-setup-complete'', runWireGuard ext ctx)
      else if shortName = ''nfs'' then Some (''nfs-setup-complete'', runNFS ext ctx)
      else if shortName = ''container'' then Some (''container-setup-complete'', runContainer ext ctx)
      else if shortName = ''deployment''
        then Some (''service-deployment-complete'', runDeployment ext ctx)
      else None)"

text \<open>What \<^verbatim>\<open>RunStep\<close> does once the runner has returned (the code after the switch).\<close>

definition RunStep_record ::
  "string \<Rightarrow> string \<Rightarrow> error option \<times> 'w SetupContext \<Rightarrow> error option \<times> 'w SetupContext" where
  "RunStep_record shortName markerName outcome =
     (case outcome of
        (Some err, c1) \<Rightarrow>
          (case MarkFailed markerName (Markers c1) of
             (Some markErr, fs1) \<Rightarrow>
               (Some err,
                ui_print Warning ''Failed to create failure marker: %v'' [ArgV markErr]
                  (c1\<lparr>Markers := fs1\<rparr>))
           | (None, fs1) \<Rightarrow> (Some err, c1\<lparr>Markers := fs1\<rparr>))
      | (None, c1) \<Rightarrow>
          (let c2 = (case ClearFailure markerName (Markers c1) of
                       (Some clearErr, fs1) \<Rightarrow>
                         ui_print Warning ''Failed to clear failure marker: %v'' [ArgV clearErr]
                           (c1\<lparr>Markers := fs1\<rparr>)
                     | (None, fs1) \<Rightarrow> c1\<lparr>Markers := fs1\<rparr>);
               c3 = (case Create markerName (Markers c2) of
                       (Some err, fs2) \<Rightarrow>
                         ui_print Warning ''Failed to create completion marker: %v'' [ArgV err]
                           (c2\<lparr>Markers := fs2\<rparr>)
                     | (None, fs2) \<Rightarrow> c2\<lparr>Markers := fs2\<rparr>)
           in (None,
               ui_print Success
                 (''Step '' @ [CHR 0x27] @ ''%s'' @ [CHR 0x27] @ '' completed successfully!'')
                 [ArgS shortName] c3)))"

definition RunStep :: "'w collaborators \<Rightarrow> 'w SetupContext \<Rightarrow> string \<Rightarrow> error option \<times> 'w SetupContext" where
  "RunStep ext ctx shortName =
     (let c0 = ui_print Header ''Running: %s'' [ArgS shortName] ctx in
      case RunStep_switch ext c0 shortName of
        None \<Rightarrow> (Some (Errorf ''unknown step: %s'' [shortName] None), c0)
      | Some (markerName, outcome) \<Rightarrow> RunStep_record shortName markerName outcome)"

text \<open>The list of steps that \<^verbatim>\<open>RunAll\<close> builds, and its loop over that list.\<close>

definition RunAll_steps :: "bool \<Rightarrow> string list" where
  "RunAll_steps skipWireGuard =
     (let steps = [''preflight'', ''user'', ''directory''];
          steps = (if \<not> skipWireGuard then steps @ [''wireguard''] else steps)
      in steps @ [''nfs'', ''container'', ''deployment''])"

fun RunAll_loop ::
  "'w collaborators \<Rightarrow> 'w SetupContext \<Rightarrow> string list \<Rightarrow> error option \<times> 'w SetupContext" where
  "RunAll_loop ext ctx [] = (None, ctx)"
| "RunAll_loop ext ctx (step # rest) =
     (case RunStep ext ctx step of
        (Some err, c1) \<Rightarrow> (Some (Errorf ''step %s failed: %w'' [step] (Some err)), c1)
      | (None, c1) \<Rightarrow> RunAll_loop ext c1 rest)"

definition RunAll :: "'w collaborators \<Rightarrow> 'w SetupContext \<Rightarrow> bool \<Rightarrow> error option \<times> 'w SetupContext" where
  "RunAll ext ctx skipWireGuard =
     (case RunAll_loop ext ctx (RunAll_steps skipWireGuard) of
        (Some err, c1) \<Rightarrow> (Some err, c1)
      | (None, c1) \<Rightarrow> (None, ui_print Success ''All steps completed successfully!'' [] c1))"

section \<open>Dry-run file system (\<^verbatim>\<open>internal/system/filesystem_dryrun.go\<close>)\<close>

text \<open>
  The wrapped \<^verbatim>\<open>FileSystem\<close> is not part of the modelled sources. It is taken as a
  parameter: one function per method, acting on a file-system state \<open>'f\<close> about which
  nothing is assumed. Every method, queries included, may change that state.
\<close>

type_synonym byte = "8 word"

record 'f FileSystem =
  FileSystem_EnsureDirectory :: "string \<Rightarrow> string \<Rightarrow> FileMode \<Rightarrow> 'f \<Rightarrow> error option \<times> 'f"
  FileSystem_Chown :: "string \<Rightarrow> string \<Rightarrow> 'f \<Rightarrow> error option \<times> 'f"
  FileSystem_ChownRecursive :: "string \<Rightarrow> string \<Rightarrow> 'f \<Rightarrow> error option \<times> 'f"
  FileSystem_Chmod :: "string \<Rightarrow> FileMode \<Rightarrow> 'f \<Rightarrow> error option \<times> 'f"
  FileSystem_ChmodRecursive :: "string \<Rightarrow> FileMode \<Rightarrow> 'f \<Rightarrow> error option \<times> 'f"
  FileSystem_WriteFile :: "string \<Rightarrow> byte list \<Rightarrow> FileMode \<Rightarrow> 'f \<Rightarrow> error option \<times> 'f"
  FileSystem_RemoveDirectory :: "string \<Rightarrow> 'f \<Rightarrow> error option \<times> 'f"
  FileSystem_RemoveFile :: "string \<Rightarrow> 'f \<Rightarrow> error option \<times> 'f"
  FileSystem_CopyFile :: "string \<Rightarrow> string \<Rightarrow> 'f \<Rightarrow> error option \<times> 'f"
  FileSystem_CreateSymlink :: "string \<Rightarrow> string \<Rightarrow> 'f \<Rightarrow> error option \<times> 'f"
  FileSystem_FileExists :: "string \<Rightarrow> 'f \<Rightarrow> (bool \<times> error option) \<times> 'f"
  FileSystem_DirectoryExists :: "string \<Rightarrow> 'f \<Rightarrow> (bool \<times> error option) \<times> 'f"
  FileSystem_GetOwner :: "string \<Rightarrow> 'f \<Rightarrow> (string \<times> error option) \<times> 'f"
  FileSystem_GetPermissions :: "string \<Rightarrow> 'f \<Rightarrow> (FileMode \<times> error option) \<times> 'f"
  FileSystem_BackupFile :: "string \<Rightarrow> 'f \<Rightarrow> (string \<times> error option) \<times> 'f"
  FileSystem_GetDiskUsage :: "string \<Rightarrow> 'f \<Rightarrow> ((64 word \<times> 64 word \<times> 64 word) \<times> error option) \<times> 'f"
  FileSystem_GetDiskUsageHuman :: "string \<Rightarrow> 'f \<Rightarrow> (string \<times> error option) \<times> 'f"
  FileSystem_CountFiles :: "string \<Rightarrow> 'f \<Rightarrow> (int \<times> error option) \<times> 'f"
  FileSystem_ListDirectory :: "string \<Rightarrow> 'f \<Rightarrow> (string list \<times> error option) \<times> 'f"
  FileSystem_GetFileSize :: "string \<Rightarrow> 'f \<Rightarrow> (64 word \<times> error option) \<times> 'f"
  FileSystem_IsMount :: "string \<Rightarrow> 'f \<Rightarrow> (bool \<times> error option) \<times> 'f"

text \<open>
  \<^verbatim>\<open>DryRunFileSystem\<close>: the wrapped file system and the flag. The \<^verbatim>\<open>ui\<close> it writes to is
  the console of the state below.
\<close>

record 'f DryRunFileSystem =
  fs :: "'f FileSystem"
  dryRun :: bool

record 'f host =
  disk :: 'f
  console :: "uimsg list"

definition ui_Infof :: "string \<Rightarrow> fmtarg list \<Rightarrow> 'f host \<Rightarrow> 'f host" where
  "ui_Infof fmt args s = s\<lparr>console := console s @ [Msg Info fmt args]\<rparr>"

definition ui_Warningf :: "string \<Rightarrow> fmtarg list \<Rightarrow> 'f host \<Rightarrow> 'f host" where
  "ui_Warningf fmt args s = s\<lparr>console := console s @ [Msg Warning fmt args]\<rparr>"

text \<open>A call of a method of the wrapped file system: \<^verbatim>\<open>d.fs.M(...)\<close>.\<close>

definition delegate :: "('f \<Rightarrow> 'a \<times> 'f) \<Rightarrow> 'f host \<Rightarrow> 'a \<times> 'f host" where
  "delegate call s = (case call (disk s) of (r, f1) \<Rightarrow> (r, s\<lparr>disk := f1\<rparr>))"

definition DryRun_EnsureDirectory ::
  "'f DryRunFileSystem \<Rightarrow> string \<Rightarrow> string \<Rightarrow> FileMode \<Rightarrow> 'f host \<Rightarrow> error option \<times> 'f host" where
  "DryRun_EnsureDirectory d path owner perms s =
     (if dryRun d
      then (None, ui_Infof ''[DRY-RUN] Would create directory: %s (owner: %s, perms: %o)''
                    [ArgS path, ArgS owner, ArgO perms] s)
      else delegate (FileSystem_EnsureDirectory (fs d) path owner perms) s)"

definition DryRun_Chown ::
  "'f DryRunFileSystem \<Rightarrow> string \<Rightarrow> string \<Rightarrow> 'f host \<Rightarrow> error option \<times> 'f host" where
  "DryRun_Chown d path owner s =
     (if dryRun d
      then (None, ui_Infof ''[DRY-RUN] Would change ownership of %s to %s''
                    [ArgS path, ArgS owner] s)
      else delegate (FileSystem_Chown (fs d) path owner) s)"

definition DryRun_ChownRecursive ::
  "'f DryRunFileSystem \<Rightarrow> string \<Rightarrow> string \<Rightarrow> 'f host \<Rightarrow> error option \<times> 'f host" where
  "DryRun_ChownRecursive d path owner s =
     (if dryRun d
      then (None, ui_Infof ''[DRY-RUN] Would recursively change ownership of %s to %s''
                    [ArgS path, ArgS owner] s)
      else delegate (FileSystem_ChownRecursive (fs d) path owner) s)"

definition DryRun_Chmod ::
  "'f DryRunFileSystem \<Rightarrow> string \<Rightarrow> FileMode \<Rightarrow> 'f host \<Rightarrow> error option \<times> 'f host" where
  "DryRun_Chmod d path perms s =
     (if dryRun d
      then (None, ui_Infof ''[DRY-RUN] Would change permissions of %s to %o''
                    [ArgS path, ArgO perms] s)
      else delegate (FileSystem_Chmod (fs d) path perms) s)"

definition DryRun_ChmodRecursive ::
  "'f DryRunFileSystem \<Rightarrow> string \<Rightarrow> FileMode \<Rightarrow> 'f host \<Rightarrow> error option \<times> 'f host" where
  "DryRun_ChmodRecursive d path perms s =
     (if dryRun d
      then (None, ui_Infof ''[DRY-RUN] Would recursively change permissions of %s to %o''
                    [ArgS path, ArgO perms] s)
      else delegate (FileSystem_ChmodRecursive (fs d) path perms) s)"

definition DryRun_WriteFile ::
  "'f DryRunFileSystem \<Rightarrow> string \<Rightarrow> byte list \<Rightarrow> FileMode \<Rightarrow> 'f host \<Rightarrow> error option \<times> 'f host" where
  "DryRun_WriteFile d path content perms s =
     (if dryRun d
      then (None, ui_Infof ''[DRY-RUN] Would write %d bytes to %s (perms: %o)''
                    [ArgD (int (length content)), ArgS path, ArgO perms] s)
      else delegate (FileSystem_WriteFile (fs d) path content perms) s)"

definition DryRun_RemoveDirectory ::
  "'f DryRunFileSystem \<Rightarrow> string \<Rightarrow> 'f host \<Rightarrow> error option \<times> 'f host" where
  "DryRun_RemoveDirectory d path s =
     (if dryRun d
      then (None, ui_Warningf ''[DRY-RUN] Would remove directory: %s'' [ArgS path] s)
      else delegate (FileSystem_RemoveDirectory (fs d) path) s)"

definition DryRun_RemoveFile ::
  "'f DryRunFileSystem \<Rightarrow> string \<Rightarrow> 'f host \<Rightarrow> error option \<times> 'f host" where
  "DryRun_RemoveFile d path s =
     (if dryRun d
      then (None, ui_Warningf ''[DRY-RUN] Would remove file: %s'' [ArgS path] s)
      else delegate (FileSystem_RemoveFile (fs d) path) s)"

definition DryRun_CopyFile ::
  "'f DryRunFileSystem \<Rightarrow> string \<Rightarrow> string \<Rightarrow> 'f host \<Rightarrow> error option \<times> 'f host" where
  "DryRun_CopyFile d src dst s =
     (if dryRun d
      then (None, ui_Infof ''[DRY-RUN] Would copy %s to %s'' [ArgS src, ArgS dst] s)
      else delegate (FileSystem_CopyFile (fs d) src dst) s)"

definition DryRun_CreateSymlink ::
  "'f DryRunFileSystem \<Rightarrow> string \<Rightarrow> string \<Rightarrow> 'f host \<Rightarrow> error option \<times> 'f host" where
  "DryRun_CreateSymlink d target linkPath s =
     (if dryRun d
      then (None, ui_Infof ''[DRY-RUN] Would create symlink: %s -> %s''
                    [ArgS linkPath, ArgS target] s)
      else delegate (FileSystem_CreateSymlink (fs d) target linkPath) s)"

definition DryRun_FileExists ::
  "'f DryRunFileSystem \<Rightarrow> string \<Rightarrow> 'f host \<Rightarrow> (bool \<times> error option) \<times> 'f host" where
  "DryRun_FileExists d path s = delegate (FileSystem_FileExists (fs d) path) s"

definition DryRun_DirectoryExists ::
  "'f DryRunFileSystem \<Rightarrow> string \<Rightarrow> 'f host \<Rightarrow> (bool \<times> error option) \<times> 'f host" where
  "DryRun_DirectoryExists d path s = delegate (FileSystem_DirectoryExists (fs d) path) s"

definition DryRun_GetOwner ::
  "'f DryRunFileSystem \<Rightarrow> string \<Rightarrow> 'f host \<Rightarrow> (string \<times> error option) \<times> 'f host" where
  "DryRun_GetOwner d path s = delegate (FileSystem_GetOwner (fs d) path) s"

definition DryRun_GetPermissions ::
  "'f DryRunFileSystem \<Rightarrow> string \<Rightarrow> 'f host \<Rightarrow> (FileMode \<times> error option) \<times> 'f host" where
  "DryRun_GetPermissions d path s = delegate (FileSystem_GetPermissions (fs d) path) s"

definition DryRun_BackupFile ::
  "'f DryRunFileSystem \<Rightarrow> string \<Rightarrow> 'f host \<Rightarrow> (string \<times> error option) \<times> 'f host" where
  "DryRun_BackupFile d path s =
     (if dryRun d
      then ((path @ ''.backup.DRYRUN'', None),
            ui_Infof ''[DRY-RUN] Would create backup of: %s'' [ArgS path] s)
      else delegate (FileSystem_BackupFile (fs d) path) s)"

definition DryRun_GetDiskUsage ::
  "'f DryRunFileSystem \<Rightarrow> string \<Rightarrow> 'f host \<Rightarrow> ((64 word \<times> 64 word \<times> 64 word) \<times> error option) \<times> 'f host" where
  "DryRun_GetDiskUsage d path s = delegate (FileSystem_GetDiskUsage (fs d) path) s"

definition DryRun_GetDiskUsageHuman ::
  "'f DryRunFileSystem \<Rightarrow> string \<Rightarrow> 'f host \<Rightarrow> (string \<times> error option) \<times> 'f host" where
  "DryRun_GetDiskUsageHuman d path s = delegate (FileSystem_GetDiskUsageHuman (fs d) path) s"

definition DryRun_CountFiles ::
  "'f DryRunFileSystem \<Rightarrow> string \<Rightarrow> 'f host \<Rightarrow> (int \<times> error option) \<times> 'f host" where
  "DryRun_CountFiles d path s = delegate (FileSystem_CountFiles (fs d) path) s"

definition DryRun_ListDirectory ::
  "'f DryRunFileSystem \<Rightarrow> string \<Rightarrow> 'f host \<Rightarrow> (string list \<times> error option) \<times> 'f host" where
  "DryRun_ListDirectory d path s = delegate (FileSystem_ListDirectory (fs d) path) s"

definition DryRun_GetFileSize ::
  "'f DryRunFileSystem \<Rightarrow> string \<Rightarrow> 'f host \<Rightarrow> (64 word \<times> error option) \<times> 'f host" where
  "DryRun_GetFileSize d path s = delegate (FileSystem_GetFileSize (fs d) path) s"

definition DryRun_IsMount ::
  "'f DryRunFileSystem \<Rightarrow> string \<Rightarrow> 'f host \<Rightarrow> (bool \<times> error option) \<times> 'f host" where
  "DryRun_IsMount d path s = delegate (FileSystem_IsMount (fs d) path) s"

text \<open>
  A call of one of the ten mutating methods with its arguments, and a sequence of such
  calls made one after the other on the same \<^verbatim>\<open>DryRunFileSystem\<close>, collecting the
  returned errors.
\<close>

datatype mutating_call =
    EnsureDirectory string string FileMode
  | Chown string string
  | ChownRecursive string string
  | Chmod string FileMode
  | ChmodRecursive string FileMode
  | WriteFile string "byte list" FileMode
  | RemoveDirectory string
  | RemoveFile string
  | CopyFile string string
  | CreateSymlink string string

fun DryRun_call :: "'f DryRunFileSystem \<Rightarrow> mutating_call \<Rightarrow> 'f host \<Rightarrow> error option \<times> 'f host" where
  "DryRun_call d (EnsureDirectory path owner perms) s = DryRun_EnsureDirectory d path owner perms s"
| "DryRun_call d (Chown path owner) s = DryRun_Chown d path owner s"
| "DryRun_call d (ChownRecursive path owner) s = DryRun_ChownRecursive d path owner s"
| "DryRun_call d (Chmod path perms) s = DryRun_Chmod d path perms s"
| "DryRun_call d (ChmodRecursive path perms) s = DryRun_ChmodRecursive d path perms s"
| "DryRun_call d (WriteFile path content perms) s = DryRun_WriteFile d path content perms s"
| "DryRun_call d (RemoveDirectory path) s = DryRun_RemoveDirectory d path s"
| "DryRun_call d (RemoveFile path) s = DryRun_RemoveFile d path s"
| "DryRun_call d (CopyFile src dst) s = DryRun_CopyFile d src dst s"
| "DryRun_call d (CreateSymlink target linkPath) s = DryRun_CreateSymlink d target linkPath s"

fun DryRun_calls ::
  "'f DryRunFileSystem \<Rightarrow> mutating_call list \<Rightarrow> 'f host \<Rightarrow> error option list \<times> 'f host" where
  "DryRun_calls d [] s = ([], s)"
| "DryRun_calls d (c # cs) s =
     (case DryRun_call d c s of
        (r, s1) \<Rightarrow> (case DryRun_calls d cs s1 of (rs, s2) \<Rightarrow> (r # rs, s2)))"

section \<open>Configuration keys and defaults (\<^verbatim>\<open>internal/config/keys.go\<close>)\<close>

definition KeyHomelabUser :: string where "KeyHomelabUser = ''HOMELAB_USER''"
definition KeyHomelabUID :: string where "KeyHomelabUID = ''HOMELAB_UID''"
definition KeyHomelabGID :: string where "KeyHomelabGID = ''HOMELAB_GID''"
definition KeyHomelabTimezone :: string where "KeyHomelabTimezone = ''HOMELAB_TIMEZONE''"
definition KeyHomelabBaseDir :: string where "KeyHomelabBaseDir = ''HOMELAB_BASE_DIR''"
definition KeyContainersBase :: string where "KeyContainersBase = ''CONTAINERS_BASE''"
definition KeyNFSServer :: string where "KeyNFSServer = ''NFS_SERVER''"
definition KeyNFSExport :: string where "KeyNFSExport = ''NFS_EXPORT''"
definition KeyNFSMountPoint :: string where "KeyNFSMountPoint = ''NFS_MOUNT_POINT''"
definition KeyNFSFstabPath :: string where "KeyNFSFstabPath = ''NFS_FSTAB_PATH''"
definition KeyWGInterface :: string where "KeyWGInterface = ''WG_INTERFACE''"
definition KeyWGInterfaceIP :: string where "KeyWGInterfaceIP = ''WG_INTERFACE_IP''"
definition KeyWGListenPort :: string where "KeyWGListenPort = ''WG_LISTEN_PORT''"
definition KeyWGConfigPath :: string where "KeyWGConfigPath = ''WG_CONFIG_PATH''"
definition KeyContainerRuntime :: string where "KeyContainerRuntime = ''CONTAINER_RUNTIME''"
definition KeySelectedServices :: string where "KeySelectedServices = ''SELECTED_SERVICES''"
definition KeyComposeProjectName :: string where "KeyComposeProjectName = ''COMPOSE_PROJECT_NAME''"
definition KeyNetworkTestRetries :: string where "KeyNetworkTestRetries = ''NETWORK_TEST_RETRIES''"
definition KeyNetworkTestTimeout :: string where "KeyNetworkTestTimeout = ''NETWORK_TEST_TIMEOUT''"
definition KeyConfigVersion :: string where "KeyConfigVersion = ''CONFIG_VERSION''"

text \<open>The \<^verbatim>\<open>Defaults\<close> map literal, in the order of the source; its keys are distinct.\<close>

definition Defaults_table :: "(string \<times> string) list" where
  "Defaults_table =
     [(KeyHomelabBaseDir, ''/srv/containers''),
      (KeyContainerRuntime, ''podman''),
      (KeyNFSMountPoint, ''/mnt/nas''),
      (KeyNFSFstabPath, ''/etc/fstab''),
      (KeyNetworkTestRetries, ''5''),
      (KeyNetworkTestTimeout, ''10''),
      (KeyConfigVersion, ''1''),
      (KeyWGInterface, ''wg0''),
      (KeyWGListenPort, ''51820'')]"

definition Defaults :: "string \<rightharpoonup> string" where
  "Defaults = map_of Defaults_table"

text \<open>
  Modelled from the spec: the \<^verbatim>\<open>Config\<close> store and its method \<^verbatim>\<open>GetOrDefault\<close>
  (\<^verbatim>\<open>internal/config/config.go\<close>), which are not among the modelled sources. The spec
  (4.1): a configuration entry is a string key mapped to a string value;
  \<^verbatim>\<open>GetOrDefault(key, fallback)\<close> resolves in the order stored value, then the static
  built-in defaults table, then the caller's fallback, and never fails. The defaults table
  is the one of the source, above.
\<close>

record Config =
  data :: "string \<rightharpoonup> string"

definition GetOrDefault :: "Config \<Rightarrow> string \<Rightarrow> string \<Rightarrow> string" where
  "GetOrDefault c key fallback =
     (case data c key of
        Some v \<Rightarrow> v
      | None \<Rightarrow> (case Defaults key of Some dflt \<Rightarrow> dflt | None \<Rightarrow> fallback))"

section \<open>A store for concrete runs\<close>

text \<open>A machine on which the marker directory does not exist yet and no call fails.\<close>

definition fresh_store :: markerdir where
  "fresh_store = \<lparr>present = False, entries = {}, denied = {}, trace = []\<rparr>"

text \<open>A file name with a backslash in it, which Linux accepts as a directory entry.\<close>

definition backslash_name :: string where
  "backslash_name = [CHR ''a'', CHR 0x5C, CHR ''b'']"

definition store_with :: "string set \<Rightarrow> markerdir" where
  "store_with names = \<lparr>present = True, entries = names, denied = {}, trace = []\<rparr>"

text \<open>
  Collaborators for concrete runs: the prompt returns its default answer, every step
  implementation succeeds without touching the context, except the NFS step, whose outcome
  is given.
\<close>

definition stub_collaborators :: "error option \<Rightarrow> unit collaborators" where
  "stub_collaborators nfs_outcome =
     \<lparr>PromptYesNo = (\<lambda>question dflt ctx. ((dflt, None), ctx)),
      PreflightChecker_RunAll = (\<lambda>ctx. (None, ctx)),
      UserConfigurator_Run = (\<lambda>ctx. (None, ctx)),
      DirectorySetup_Run = (\<lambda>ctx. (None, ctx)),
      WireGuardSetup_Run = (\<lambda>ctx. (None, ctx)),
      NFSConfigurator_Run = (\<lambda>ctx. (nfs_outcome, ctx)),
      ContainerSetup_Run = (\<lambda>ctx. (None, ctx)),
      Deployment_Run = (\<lambda>ctx. (None, ctx))\<rparr>"

definition context_on :: "markerdir \<Rightarrow> unit SetupContext" where
  "context_on store = \<lparr>Markers = store, UI = [], SkipWireGuard = False, Machine = ()\<rparr>"

text \<open>
  A wrapped file system for concrete runs, over the set of paths touched: every method
  records its path and fails, so a call that reaches it is visible in both the state and
  the result.
\<close>

definition tripwire :: "string \<Rightarrow> 'a \<Rightarrow> string set \<Rightarrow> ('a \<times> error option) \<times> string set" where
  "tripwire path dflt touched = ((dflt, Some (External ''reached'')), insert path touched)"

definition tripwire_FileSystem :: "string set FileSystem" where
  "tripwire_FileSystem =
     \<lparr>FileSystem_EnsureDirectory = (\<lambda>path owner perms t. (Some (External ''reached''), insert path t)),
      FileSystem_Chown = (\<lambda>path owner t. (Some (External ''reached''), insert path t)),
      FileSystem_ChownRecursive = (\<lambda>path owner t. (Some (External ''reached''), insert path t)),
      FileSystem_Chmod = (\<lambda>path perms t. (Some (External ''reached''), insert path t)),
      FileSystem_ChmodRecursive = (\<lambda>path perms t. (Some (External ''reached''), insert path t)),
      FileSystem_WriteFile = (\<lambda>path content perms t. (Some (External ''reached''), insert path t)),
      FileSystem_RemoveDirectory = (\<lambda>path t. (Some (External ''reached''), insert path t)),
      FileSystem_RemoveFile = (\<lambda>path t. (Some (External ''reached''), insert path t)),
      FileSystem_CopyFile = (\<lambda>src dst t. (Some (External ''reached''), insert dst t)),
      FileSystem_CreateSymlink = (\<lambda>target linkPath t. (Some (External ''reached''), insert linkPath t)),
      FileSystem_FileExists = (\<lambda>path. tripwire path False),
      FileSystem_DirectoryExists = (\<lambda>path. tripwire path False),
      FileSystem_GetOwner = (\<lambda>path. tripwire path []),
      FileSystem_GetPermissions = (\<lambda>path. tripwire path 0),
      FileSystem_BackupFile = (\<lambda>path. tripwire path []),
      FileSystem_GetDiskUsage = (\<lambda>path. tripwire path (0, 0, 0)),
      FileSystem_GetDiskUsageHuman = (\<lambda>path. tripwire path []),
      FileSystem_CountFiles = (\<lambda>path. tripwire path 0),
      FileSystem_ListDirectory = (\<lambda>path. tripwire path []),
      FileSystem_GetFileSize = (\<lambda>path. tripwire path 0),
      FileSystem_IsMount = (\<lambda>path. tripwire path False)\<rparr>"

text \<open>A marker directory that cannot be created: \<^verbatim>\<open>MkdirAll\<close> fails.\<close>

definition readonly_store :: markerdir where
  "readonly_store = \<lparr>present = False, entries = {}, denied = {SysMkdirAll}, trace = []\<rparr>"

text \<open>A dry-run wrapper around the tripwire file system, an empty state, and a few calls.\<close>

definition preview :: "string set DryRunFileSystem" where
  "preview = \<lparr>fs = tripwire_FileSystem, dryRun = True\<rparr>"

definition untouched :: "string set host" where
  "untouched = \<lparr>disk = {}, console = []\<rparr>"

definition provisioning_calls :: "mutating_call list" where
  "provisioning_calls =
     [EnsureDirectory ''/srv/containers'' ''core'' 0x1ED,
      WriteFile ''/srv/containers/.env'' [0x41, 0x3D, 0x31] 0x180,
      Chown ''/srv/containers'' ''core'',
      RemoveDirectory ''/srv/containers/old'']"

section \<open>Basic facts\<close>

lemma sublist_single: "sublist [c] xs \<longleftrightarrow> c \<in> set xs"
  by (induction xs) (auto simp: sublist_Cons_right)

lemma validateMarkerName_None_iff:
  "validateMarkerName name = None \<longleftrightarrow>
     name \<noteq> [] \<and> CHR ''/'' \<notin> set name \<and> CHR 0x5C \<notin> set name
     \<and> name \<noteq> ''.'' \<and> name \<noteq> ''..''"
  by (auto simp: validateMarkerName_def strings_Contains_def sublist_single)

lemma validateMarkerName_failed:
  "validateMarkerName name = None \<Longrightarrow> validateMarkerName (name @ ''-failed'') = None"
  by (auto simp: validateMarkerName_None_iff)

lemmas os_defs = os_MkdirAll_def os_Create_def os_OpenFile_excl_def os_Stat_def os_Remove_def
  issue_def has_entry_def IsExist_def IsNotExist_def

lemma issue_fields [simp]:
  "present (issue c md) = present md" "entries (issue c md) = entries md"
  "denied (issue c md) = denied md" "has_entry (issue c md) n = has_entry md n"
  by (simp_all add: issue_def has_entry_def)

lemma Exists_ok:
  assumes "validateMarkerName name = None" and "SysStat name \<notin> denied md"
  shows "Exists name md = ((has_entry md name, None), issue (SysStat name) md)"
  using assms by (simp add: Exists_def os_Stat_def IsNotExist_def Let_def)


lemma Remove_ok:
  assumes "validateMarkerName name = None" and "SysRemove name \<notin> denied md"
  shows "fst (Remove name md) = None"
    and "has_entry (snd (Remove name md)) n = (n \<noteq> name \<and> has_entry md n)"
    and "denied (snd (Remove name md)) = denied md"
    and "present (snd (Remove name md)) = present md"
  using assms by (auto simp: Remove_def os_defs Let_def)

lemma CreateIfNotExists_ok:
  assumes "validateMarkerName name = None"
    and "SysMkdirAll \<notin> denied md" and "SysOpenExcl name \<notin> denied md"
  shows "fst (CreateIfNotExists name md) = (\<not> has_entry md name, None)"
    and "has_entry (snd (CreateIfNotExists name md)) n = (n = name \<or> has_entry md n)"
    and "denied (snd (CreateIfNotExists name md)) = denied md"
  using assms by (auto simp: CreateIfNotExists_def os_defs Let_def)

lemma ensureCanonicalMarker_migrates:
  assumes vc: "validateMarkerName canonical = None"
    and vl: "validateMarkerName legacy = None"
    and nd: "denied md = {}"
    and l: "has_entry md legacy" and c: "\<not> has_entry md canonical"
  shows "fst (ensureCanonicalMarker canonical [legacy] md) = (True, None)"
    and "has_entry (snd (ensureCanonicalMarker canonical [legacy] md)) n
          = (n = canonical \<or> (n \<noteq> legacy \<and> has_entry md n))"
    and "denied (snd (ensureCanonicalMarker canonical [legacy] md)) = {}"
proof -
  from l c have ne: "legacy \<noteq> canonical" by auto
  from vl have ne2: "legacy \<noteq> []" by (simp add: validateMarkerName_None_iff)
  let ?m1 = "issue (SysStat canonical) md"
  let ?m2 = "issue (SysStat legacy) ?m1"
  have d2: "denied ?m2 = {}" using nd by simp
  obtain m3 where r: "CreateIfNotExists canonical ?m2 = ((True, None), m3)"
    using CreateIfNotExists_ok(1) [OF vc, of ?m2] d2 c
    by (cases "CreateIfNotExists canonical ?m2") simp
  have r2: "\<And>n. has_entry m3 n = (n = canonical \<or> has_entry md n)"
    using CreateIfNotExists_ok(2) [OF vc, of ?m2] d2 by (simp add: r)
  have r3: "denied m3 = {}"
    using CreateIfNotExists_ok(3) [OF vc, of ?m2] d2 by (simp add: r)
  have e: "ensureCanonicalMarker canonical [legacy] md = ((True, None), snd (Remove legacy m3))"
    using ne ne2 c l nd
    by (simp add: ensureCanonicalMarker_def Exists_ok [OF vc] Exists_ok [OF vl] r)
  show "fst (ensureCanonicalMarker canonical [legacy] md) = (True, None)"
    by (simp add: e)
  show "has_entry (snd (ensureCanonicalMarker canonical [legacy] md)) n
          = (n = canonical \<or> (n \<noteq> legacy \<and> has_entry md n))"
    using ne by (auto simp: e Remove_ok(2) [OF vl] r3 r2)
  show "denied (snd (ensureCanonicalMarker canonical [legacy] md)) = {}"
    by (simp add: e Remove_ok(3) [OF vl] r3)
qed

lemma ensureCanonicalMarker_fast_path:
  assumes "validateMarkerName canonical = None" and "SysStat canonical \<notin> denied md"
    and "has_entry md canonical"
  shows "ensureCanonicalMarker canonical legacy md = ((True, None), issue (SysStat canonical) md)"
  using assms by (simp add: ensureCanonicalMarker_def Exists_ok)

lemma ui_print_Markers [simp]: "Markers (ui_print lvl fmt args ctx) = Markers ctx"
  by (simp add: ui_print_def)

lemma ui_print_UI [simp]: "UI (ui_print lvl fmt args ctx) = UI ctx @ [Msg lvl fmt args]"
  by (simp add: ui_print_def)


lemma RunStep_switch_known:
  assumes "info \<in> set GetAllSteps"
  shows "\<exists>outcome c1. RunStep_switch ext c (ShortName info) = Some (MarkerName info, outcome, c1)"
proof -
  have pair: "\<exists>outcome c1. x = (outcome, c1)" for x :: "error option \<times> 'a SetupContext"
    by (cases x) simp
  from assms show ?thesis
    by (auto simp: GetAllSteps_def RunStep_switch_def pair)
qed



lemma RunStep_record_success_nil: "fst (RunStep_record s m (None, c1)) = None"
  by (simp add: RunStep_record_def Let_def)

lemma RunStep_record_clear_warning:
  assumes "fst (ClearFailure m (Markers c1)) = Some e"
  shows "Msg Warning ''Failed to clear failure marker: %v'' [ArgV e]
           \<in> set (UI (snd (RunStep_record s m (None, c1))))"
  using assms
  by (cases "ClearFailure m (Markers c1)")
     (auto simp: RunStep_record_def Let_def split: prod.splits option.splits)

lemma RunStep_record_create_warning:
  assumes "fst (Create m (snd (ClearFailure m (Markers c1)))) = Some e"
  shows "Msg Warning ''Failed to create completion marker: %v'' [ArgV e]
           \<in> set (UI (snd (RunStep_record s m (None, c1))))"
  using assms
  by (cases "ClearFailure m (Markers c1)")
     (auto simp: RunStep_record_def Let_def split: prod.splits option.splits)

lemma RunAll_loop_append:
  "RunAll_loop ext ctx pre = (None, c) \<Longrightarrow> RunAll_loop ext ctx (pre @ rest) = RunAll_loop ext c rest"
proof (induction pre arbitrary: ctx)
  case Nil
  then show ?case by simp
next
  case (Cons step pre)
  then show ?case
    by (cases "RunStep ext ctx step") (auto split: option.splits)
qed

lemmas run_defs = RunStep_def RunStep_switch_def RunStep_record_def runNFS_def runUnlessComplete_def
  IsStepComplete_def removeMarkerIfRerun_def MarkFailed_def ClearFailure_def Create_def Remove_def
  Exists_def GetStatus_def IsFailed_def validateMarkerName_def strings_Contains_def sublist_single
  os_defs ui_print_def stub_collaborators_def context_on_def store_with_def fresh_store_def Let_def

lemmas all_run_defs = run_defs runPreflight_def runUser_def runDirectory_def runWireGuard_def
  runContainer_def runDeployment_def RunAll_def RunAll_steps_def

lemma stub_prefix_run:
  "RunAll_loop (stub_collaborators (Some (External ''mount failed'')))
     (context_on fresh_store) [''preflight'', ''user'', ''directory'']
   = (None,
      \<lparr>Markers = \<lparr>present = True,
                  entries = {''directory-setup-complete'', ''user-setup-complete'',
                             ''preflight-complete''},
                  denied = {},
                  trace = [SysStat ''preflight-complete'', SysRemove ''preflight-complete-failed'',
                           SysMkdirAll, SysCreate ''preflight-complete'',
                           SysStat ''user-setup-complete'', SysRemove ''user-setup-complete-failed'',
                           SysMkdirAll, SysCreate ''user-setup-complete'',
                           SysStat ''directory-setup-complete'',
                           SysRemove ''directory-setup-complete-failed'',
                           SysMkdirAll, SysCreate ''directory-setup-complete'']\<rparr>,
       UI = [Msg Header ''Running: %s'' [ArgS ''preflight''],
             Msg Success (''Step '' @ [CHR 0x27] @ ''%s'' @ [CHR 0x27] @ '' completed successfully!'')
               [ArgS ''preflight''],
             Msg Header ''Running: %s'' [ArgS ''user''],
             Msg Success (''Step '' @ [CHR 0x27] @ ''%s'' @ [CHR 0x27] @ '' completed successfully!'')
               [ArgS ''user''],
             Msg Header ''Running: %s'' [ArgS ''directory''],
             Msg Success (''Step '' @ [CHR 0x27] @ ''%s'' @ [CHR 0x27] @ '' completed successfully!'')
               [ArgS ''directory'']],
       SkipWireGuard = False, Machine = ()\<rparr>)"
  by (simp add: all_run_defs)

lemmas DryRun_mutating_defs = DryRun_EnsureDirectory_def DryRun_Chown_def DryRun_ChownRecursive_def
  DryRun_Chmod_def DryRun_ChmodRecursive_def DryRun_WriteFile_def DryRun_RemoveDirectory_def
  DryRun_RemoveFile_def DryRun_CopyFile_def DryRun_CreateSymlink_def

lemmas DryRun_query_defs = DryRun_FileExists_def DryRun_DirectoryExists_def DryRun_GetOwner_def
  DryRun_GetPermissions_def DryRun_GetDiskUsage_def DryRun_GetDiskUsageHuman_def
  DryRun_CountFiles_def DryRun_ListDirectory_def DryRun_GetFileSize_def DryRun_IsMount_def

lemma DryRun_call_dry:
  assumes "dryRun d"
  shows "fst (DryRun_call d c s) = None"
    and "disk (snd (DryRun_call d c s)) = disk s"
    and "DryRun_call (d\<lparr>fs := other\<rparr>) c s = DryRun_call d c s"
  using assms
  by (cases c; simp add: DryRun_mutating_defs ui_Infof_def ui_Warningf_def)+

lemma DryRun_calls_dry:
  assumes "dryRun d"
  shows "fst (DryRun_calls d calls s) = replicate (length calls) None
       \<and> disk (snd (DryRun_calls d calls s)) = disk s
       \<and> DryRun_calls (d\<lparr>fs := other\<rparr>) calls s = DryRun_calls d calls s"
proof (induction calls arbitrary: s)
  case Nil
  show ?case by simp
next
  case (Cons c calls)
  obtain r s1 where c: "DryRun_call d c s = (r, s1)"
    by (cases "DryRun_call d c s")
  have r: "r = None"
    using DryRun_call_dry(1) [OF assms, of c s] c by simp
  have s1: "disk s1 = disk s"
    using DryRun_call_dry(2) [OF assms, of c s] c by simp
  have o: "DryRun_call (d\<lparr>fs := other\<rparr>) c s = (r, s1)"
    using DryRun_call_dry(3) [OF assms, of other c s] c by simp
  from Cons.IH [of s1] show ?case
    by (cases "DryRun_calls d calls s1") (simp add: c o r s1)
qed

lemma DryRun_BackupFile_dry:
  "dryRun d \<Longrightarrow>
     DryRun_BackupFile d path s
       = ((path @ ''.backup.DRYRUN'', None),
          ui_Infof ''[DRY-RUN] Would create backup of: %s'' [ArgS path] s)"
  by (simp add: DryRun_BackupFile_def)



section \<open>Properties of the marker store\<close>

text \<open>
  C1. For a valid marker name, on a marker directory whose \<^verbatim>\<open>MkdirAll\<close> and exclusive
  open do not fail, \<open>CreateIfNotExists\<close> returns \<open>(true, nil)\<close> and the marker exists
  afterwards when it was absent before; it returns \<open>(false, nil)\<close> and leaves the directory
  as it was when the marker already existed. No other marker is affected.
\<close>

theorem CreateIfNotExists_creates_once:
  assumes "validateMarkerName name = None"
    and "SysMkdirAll \<notin> denied md" and "SysOpenExcl name \<notin> denied md"
  shows "(\<not> has_entry md name \<longrightarrow>
            fst (CreateIfNotExists name md) = (True, None)
          \<and> has_entry (snd (CreateIfNotExists name md)) name)
       \<and> (has_entry md name \<longrightarrow>
            fst (CreateIfNotExists name md) = (False, None)
          \<and> present (snd (CreateIfNotExists name md)) = present md
          \<and> entries (snd (CreateIfNotExists name md)) = entries md)
       \<and> (\<forall>other. other \<noteq> name \<longrightarrow>
            has_entry (snd (CreateIfNotExists name md)) other = has_entry md other)"
  using assms by (auto simp: CreateIfNotExists_def os_defs Let_def)

theorem CreateIfNotExists_creates_once_witness:
  "validateMarkerName ''nfs-setup-complete'' = None
   \<and> fst (CreateIfNotExists ''nfs-setup-complete'' fresh_store) = (True, None)
   \<and> has_entry (snd (CreateIfNotExists ''nfs-setup-complete'' fresh_store)) ''nfs-setup-complete''
   \<and> has_entry (fresh_store\<lparr>present := True, entries := {''nfs-setup-complete''}\<rparr>)
        ''nfs-setup-complete''
   \<and> fst (CreateIfNotExists ''nfs-setup-complete''
             (fresh_store\<lparr>present := True, entries := {''nfs-setup-complete''}\<rparr>)) = (False, None)
   \<and> entries (snd (CreateIfNotExists ''nfs-setup-complete''
             (fresh_store\<lparr>present := True, entries := {''nfs-setup-complete''}\<rparr>)))
       = {''nfs-setup-complete''}"
  using CreateIfNotExists_creates_once [of "''nfs-setup-complete''" fresh_store]
    CreateIfNotExists_creates_once [of "''nfs-setup-complete''"
      "fresh_store\<lparr>present := True, entries := {''nfs-setup-complete''}\<rparr>"]
  by (simp add: validateMarkerName_None_iff fresh_store_def has_entry_def)

text \<open>
  C7. A name that contains \<^verbatim>\<open>/\<close> or a backslash, or is \<^verbatim>\<open>.\<close> or \<^verbatim>\<open>..\<close>, makes
  \<open>Create\<close>, \<open>CreateIfNotExists\<close>, \<open>Exists\<close> and \<open>Remove\<close> return the error of
  \<open>validateMarkerName\<close>; the marker directory, including the record of calls issued, is
  exactly as before, so no call reached the file system.
\<close>

theorem invalid_name_rejected_before_io:
  assumes "strings_Contains name ''/'' \<or> strings_Contains name [CHR 0x5C]
           \<or> name = ''.'' \<or> name = ''..''"
  shows "\<exists>err. validateMarkerName name = Some err
           \<and> err = (if strings_Contains name ''/'' \<or> strings_Contains name [CHR 0x5C]
                      then Errorf ''marker name cannot contain path separators: %s'' [name] None
                      else Errorf (''marker name cannot be '' @ [CHR 0x27] @ ''.'' @ [CHR 0x27]
                                   @ '' or '' @ [CHR 0x27] @ ''..'' @ [CHR 0x27] @ '': %s'')
                             [name] None)
           \<and> Create name md = (Some err, md)
           \<and> CreateIfNotExists name md = ((False, Some err), md)
           \<and> Exists name md = ((False, Some err), md)
           \<and> Remove name md = (Some err, md)
           \<and> trace (snd (Create name md)) = trace md
           \<and> trace (snd (CreateIfNotExists name md)) = trace md
           \<and> trace (snd (Exists name md)) = trace md
           \<and> trace (snd (Remove name md)) = trace md"
proof -
  from assms have ne: "name \<noteq> []"
    by (auto simp: strings_Contains_def)
  from assms have v: "validateMarkerName name =
      Some (if strings_Contains name ''/'' \<or> strings_Contains name [CHR 0x5C]
            then Errorf ''marker name cannot contain path separators: %s'' [name] None
            else Errorf (''marker name cannot be '' @ [CHR 0x27] @ ''.'' @ [CHR 0x27]
                         @ '' or '' @ [CHR 0x27] @ ''..'' @ [CHR 0x27] @ '': %s'')
                   [name] None)"
    unfolding validateMarkerName_def using ne by auto
  show ?thesis
    by (simp add: v Create_def CreateIfNotExists_def Exists_def Remove_def)
qed

theorem invalid_name_rejected_before_io_witness:
  "strings_Contains ''../etc'' ''/''
   \<and> Create ''../etc'' fresh_store
       = (Some (Errorf ''marker name cannot contain path separators: %s'' [''../etc''] None),
          fresh_store)
   \<and> fst (fst (Exists ''..'' fresh_store)) = False
   \<and> snd (fst (Exists ''..'' fresh_store)) \<noteq> None
   \<and> snd (Exists ''..'' fresh_store) = fresh_store
   \<and> fst (Remove [CHR ''a'', CHR 0x5C, CHR ''b''] fresh_store) \<noteq> None
   \<and> snd (Remove [CHR ''a'', CHR 0x5C, CHR ''b''] fresh_store) = fresh_store
   \<and> snd (fst (CreateIfNotExists ''.'' fresh_store)) \<noteq> None
   \<and> snd (CreateIfNotExists ''.'' fresh_store) = fresh_store"
  using invalid_name_rejected_before_io [of "''../etc''" fresh_store]
    invalid_name_rejected_before_io [of "''..''" fresh_store]
    invalid_name_rejected_before_io [of "[CHR ''a'', CHR 0x5C, CHR ''b'']" fresh_store]
    invalid_name_rejected_before_io [of "''.''" fresh_store]
  by (auto simp: strings_Contains_def sublist_single validateMarkerName_def)

text \<open>
  C10. The empty name is rejected by every name-taking operation with the error
  \<^verbatim>\<open>marker name cannot be empty\<close>, and the marker directory, including the record of
  calls issued, is exactly as before.
\<close>

theorem empty_name_rejected_before_io:
  "validateMarkerName [] = Some (Errorf ''marker name cannot be empty'' [] None)
   \<and> Create [] md = (Some (Errorf ''marker name cannot be empty'' [] None), md)
   \<and> CreateIfNotExists [] md
       = ((False, Some (Errorf ''marker name cannot be empty'' [] None)), md)
   \<and> Exists [] md = ((False, Some (Errorf ''marker name cannot be empty'' [] None)), md)
   \<and> Remove [] md = (Some (Errorf ''marker name cannot be empty'' [] None), md)"
  by (simp add: validateMarkerName_def Create_def CreateIfNotExists_def Exists_def Remove_def)

text \<open>
  C3 (as amended). For every name accepted by \<open>validateMarkerName\<close>, when the two
  \<^verbatim>\<open>Stat\<close> calls do not fail, \<open>GetStatus\<close> returns \<open>Failed\<close> if the failure marker
  \<^verbatim>\<open><name>-failed\<close> exists, whether or not the completion marker exists; otherwise
  \<open>Completed\<close> if the completion marker exists; otherwise \<open>NotStarted\<close>; each with a nil
  error.
\<close>

theorem GetStatus_valid_name:
  assumes "validateMarkerName name = None"
    and "SysStat (name @ ''-failed'') \<notin> denied md" and "SysStat name \<notin> denied md"
  shows "fst (GetStatus name md) =
           (if has_entry md (name @ ''-failed'') then (StepFailed, None)
            else if has_entry md name then (StepCompleted, None)
            else (StepNotStarted, None))"
  using assms
  by (simp add: GetStatus_def IsFailed_def Exists_ok validateMarkerName_failed)

theorem GetStatus_valid_name_witness:
  "fst (GetStatus ''nfs-setup-complete''
          (store_with {''nfs-setup-complete'', ''nfs-setup-complete-failed''})) = (StepFailed, None)
   \<and> fst (GetStatus ''nfs-setup-complete'' (store_with {''nfs-setup-complete''}))
       = (StepCompleted, None)
   \<and> fst (GetStatus ''nfs-setup-complete'' fresh_store) = (StepNotStarted, None)"
  using GetStatus_valid_name [of "''nfs-setup-complete''"
          "store_with {''nfs-setup-complete'', ''nfs-setup-complete-failed''}"]
    GetStatus_valid_name [of "''nfs-setup-complete''" "store_with {''nfs-setup-complete''}"]
    GetStatus_valid_name [of "''nfs-setup-complete''" fresh_store]
  by (simp add: validateMarkerName_None_iff store_with_def fresh_store_def has_entry_def)

text \<open>
  C3 as stated, for every name, does not hold. For the name \<^verbatim>\<open>a/b\<close> neither marker exists
  in the fresh store, and \<open>GetStatus\<close> returns the validation error of the derived name
  instead of \<open>NotStarted\<close> with a nil error. For a name with a backslash, both files can be
  present in the directory, and the status returned is not \<open>Failed\<close>.
\<close>

theorem GetStatus_every_name_counterexample:
  "\<not> has_entry fresh_store ''a/b'' \<and> \<not> has_entry fresh_store (''a/b'' @ ''-failed'')
   \<and> denied fresh_store = {}
   \<and> fst (GetStatus ''a/b'' fresh_store)
       = (StepNotStarted,
          Some (Errorf ''marker name cannot contain path separators: %s'' [''a/b-failed''] None))
   \<and> has_entry (store_with {backslash_name, backslash_name @ ''-failed''}) backslash_name
   \<and> has_entry (store_with {backslash_name, backslash_name @ ''-failed''})
        (backslash_name @ ''-failed'')
   \<and> denied (store_with {backslash_name, backslash_name @ ''-failed''}) = {}
   \<and> fst (fst (GetStatus backslash_name
                  (store_with {backslash_name, backslash_name @ ''-failed''}))) \<noteq> StepFailed"
  by (simp add: GetStatus_def IsFailed_def Exists_def validateMarkerName_def
      strings_Contains_def sublist_single has_entry_def fresh_store_def store_with_def
      backslash_name_def)

text \<open>
  C2 (as amended). For every canonical name and legacy alias that \<open>validateMarkerName\<close>
  accepts, on a marker directory where no call fails, starting with the legacy marker
  present and the canonical marker absent: \<open>ensureCanonicalMarker\<close> returns \<open>(true, nil)\<close>;
  afterwards the canonical marker exists and the legacy marker is absent; a second call
  returns \<open>(true, nil)\<close> again and changes no marker.
\<close>

theorem ensureCanonicalMarker_twice:
  assumes "validateMarkerName canonical = None"
    and "validateMarkerName legacy = None"
    and "denied md = {}"
    and "has_entry md legacy" and "\<not> has_entry md canonical"
  shows "fst (ensureCanonicalMarker canonical [legacy] md) = (True, None)
       \<and> has_entry (snd (ensureCanonicalMarker canonical [legacy] md)) canonical
       \<and> \<not> has_entry (snd (ensureCanonicalMarker canonical [legacy] md)) legacy
       \<and> fst (ensureCanonicalMarker canonical [legacy]
                (snd (ensureCanonicalMarker canonical [legacy] md))) = (True, None)
       \<and> (\<forall>n. has_entry (snd (ensureCanonicalMarker canonical [legacy]
                  (snd (ensureCanonicalMarker canonical [legacy] md)))) n
              = has_entry (snd (ensureCanonicalMarker canonical [legacy] md)) n)"
proof -
  let ?m = "snd (ensureCanonicalMarker canonical [legacy] md)"
  note first = ensureCanonicalMarker_migrates [OF assms]
  have hc: "has_entry ?m canonical" by (simp add: first(2))
  have "SysStat canonical \<notin> denied ?m" by (simp add: first(3))
  from ensureCanonicalMarker_fast_path [OF assms(1) this hc]
  have second: "ensureCanonicalMarker canonical [legacy] ?m
                  = ((True, None), issue (SysStat canonical) ?m)" .
  show ?thesis
    using assms(4,5) by (auto simp: first(1,2) second)
qed

theorem ensureCanonicalMarker_twice_witness:
  "fst (ensureCanonicalMarker ''deployment-complete-v2'' [''deployment-complete'']
          (store_with {''deployment-complete''})) = (True, None)
   \<and> has_entry (snd (ensureCanonicalMarker ''deployment-complete-v2'' [''deployment-complete'']
          (store_with {''deployment-complete''}))) ''deployment-complete-v2''
   \<and> \<not> has_entry (snd (ensureCanonicalMarker ''deployment-complete-v2'' [''deployment-complete'']
          (store_with {''deployment-complete''}))) ''deployment-complete''
   \<and> fst (ensureCanonicalMarker ''deployment-complete-v2'' [''deployment-complete'']
          (snd (ensureCanonicalMarker ''deployment-complete-v2'' [''deployment-complete'']
             (store_with {''deployment-complete''})))) = (True, None)"
  using ensureCanonicalMarker_twice [of "''deployment-complete-v2''" "''deployment-complete''"
      "store_with {''deployment-complete''}"]
  by (simp add: validateMarkerName_None_iff store_with_def has_entry_def)

text \<open>
  C2 as stated, for every canonical name, does not hold: with the legacy marker present
  and a canonical name that validation rejects (\<^verbatim>\<open>a/b\<close>, or the empty name), the first call
  already returns \<open>(false, err)\<close> and migrates nothing.
\<close>

theorem ensureCanonicalMarker_every_name_counterexample:
  "has_entry (store_with {''deployment-complete''}) ''deployment-complete''
   \<and> \<not> has_entry (store_with {''deployment-complete''}) ''a/b''
   \<and> \<not> has_entry (store_with {''deployment-complete''}) []
   \<and> denied (store_with {''deployment-complete''}) = {}
   \<and> ensureCanonicalMarker ''a/b'' [''deployment-complete''] (store_with {''deployment-complete''})
       = ((False, Some (Errorf ''marker name cannot contain path separators: %s'' [''a/b''] None)),
          store_with {''deployment-complete''})
   \<and> ensureCanonicalMarker [] [''deployment-complete''] (store_with {''deployment-complete''})
       = ((False, Some (Errorf ''marker name cannot be empty'' [] None)),
          store_with {''deployment-complete''})"
  by (simp add: ensureCanonicalMarker_def Exists_def validateMarkerName_def
      strings_Contains_def sublist_single has_entry_def store_with_def)

section \<open>Properties of the orchestrator\<close>




text \<open>
  C5. \<open>RunAll\<close> goes through preflight, user, directory, wireguard, nfs, container,
  deployment in this order, without wireguard exactly when \<open>skipWireGuard\<close> is set. If the
  steps before \<open>step\<close> all returned nil and \<open>RunStep\<close> of \<open>step\<close> returns an error,
  \<open>RunAll\<close> returns that error wrapped in \<^verbatim>\<open>step <name> failed\<close>, in the context that
  \<open>RunStep\<close> of \<open>step\<close> left: no later step has run. If every step returned nil, \<open>RunAll\<close>
  returns nil.
\<close>

theorem RunAll_stops_at_first_failure:
  "RunAll_steps skipWireGuard
     = (if skipWireGuard
        then [''preflight'', ''user'', ''directory'', ''nfs'', ''container'', ''deployment'']
        else [''preflight'', ''user'', ''directory'', ''wireguard'', ''nfs'', ''container'',
              ''deployment''])
   \<and> (\<forall>pre step post c err c1.
         RunAll_steps skipWireGuard = pre @ step # post
         \<and> RunAll_loop ext ctx pre = (None, c)
         \<and> RunStep ext c step = (Some err, c1)
         \<longrightarrow> RunAll ext ctx skipWireGuard
               = (Some (Errorf ''step %s failed: %w'' [step] (Some err)), c1))
   \<and> (\<forall>c. RunAll_loop ext ctx (RunAll_steps skipWireGuard) = (None, c)
         \<longrightarrow> RunAll ext ctx skipWireGuard
               = (None, ui_print Success ''All steps completed successfully!'' [] c))"
proof (intro conjI allI impI)
  show "RunAll_steps skipWireGuard
     = (if skipWireGuard
        then [''preflight'', ''user'', ''directory'', ''nfs'', ''container'', ''deployment'']
        else [''preflight'', ''user'', ''directory'', ''wireguard'', ''nfs'', ''container'',
              ''deployment''])"
    by (simp add: RunAll_steps_def)
next
  fix pre step post c err c1
  assume a: "RunAll_steps skipWireGuard = pre @ step # post
         \<and> RunAll_loop ext ctx pre = (None, c)
         \<and> RunStep ext c step = (Some err, c1)"
  then have "RunAll_loop ext ctx (pre @ step # post) = RunAll_loop ext c (step # post)"
    by (simp add: RunAll_loop_append)
  with a show "RunAll ext ctx skipWireGuard
               = (Some (Errorf ''step %s failed: %w'' [step] (Some err)), c1)"
    by (simp add: RunAll_def)
next
  fix c
  assume "RunAll_loop ext ctx (RunAll_steps skipWireGuard) = (None, c)"
  then show "RunAll ext ctx skipWireGuard
               = (None, ui_print Success ''All steps completed successfully!'' [] c)"
    by (simp add: RunAll_def)
qed

theorem RunAll_stops_at_first_failure_witness:
  "RunAll_steps True = [''preflight'', ''user'', ''directory''] @ ''nfs''
      # [''container'', ''deployment'']
   \<and> fst (RunAll_loop (stub_collaborators (Some (External ''mount failed'')))
            (context_on fresh_store) [''preflight'', ''user'', ''directory''])
       = None
   \<and> fst (RunAll (stub_collaborators (Some (External ''mount failed'')))
            (context_on fresh_store) True)
       = Some (Errorf ''step %s failed: %w'' [''nfs''] (Some (External ''mount failed'')))
   \<and> entries (Markers (snd (RunAll (stub_collaborators (Some (External ''mount failed'')))
            (context_on fresh_store) True)))
       = {''nfs-setup-complete-failed'', ''directory-setup-complete'', ''user-setup-complete'',
          ''preflight-complete''}"
proof -
  let ?ext = "stub_collaborators (Some (External ''mount failed''))"
  let ?pre = "[''preflight'', ''user'', ''directory'']"
  let ?c = "snd (RunAll_loop ?ext (context_on fresh_store) ?pre)"
  let ?c1 = "snd (RunStep ?ext ?c ''nfs'')"
  have steps: "RunAll_steps True = ?pre @ ''nfs'' # [''container'', ''deployment'']"
    by (simp add: RunAll_steps_def)
  have pre: "RunAll_loop ?ext (context_on fresh_store) ?pre = (None, ?c)"
    unfolding stub_prefix_run by simp
  have step: "RunStep ?ext ?c ''nfs'' = (Some (External ''mount failed''), ?c1)"
    unfolding stub_prefix_run by (simp add: run_defs)
  have "RunAll ?ext (context_on fresh_store) True
          = (Some (Errorf ''step %s failed: %w'' [''nfs''] (Some (External ''mount failed''))), ?c1)"
    using RunAll_stops_at_first_failure [of True ?ext "context_on fresh_store"] steps pre step
    by blast
  then show ?thesis
    using steps unfolding stub_prefix_run by (simp add: run_defs)
qed

text \<open>
  C8 (as amended). The operations of the marker store return the error of a failing
  file-system call to their caller. \<open>RunStep\<close> does not pass on a failure of its own marker
  writes: whenever the runner of a step returned nil, \<open>RunStep\<close> returns nil, and a failure
  of \<open>ClearFailure\<close> or of \<open>Create\<close> appears only as a warning on the console.
\<close>

theorem marker_write_failures:
  assumes "validateMarkerName name = None" and "info \<in> set GetAllSteps"
  shows "(SysMkdirAll \<in> denied md \<longrightarrow>
            fst (Create name md)
              = Some (Errorf ''failed to create marker directory: %w'' [] (Some (ErrOther SysMkdirAll)))
          \<and> snd (fst (CreateIfNotExists name md))
              = Some (Errorf ''failed to create marker directory: %w'' [] (Some (ErrOther SysMkdirAll))))
       \<and> (SysMkdirAll \<notin> denied md \<and> SysCreate name \<in> denied md \<longrightarrow>
            fst (Create name md)
              = Some (Errorf ''failed to create marker file: %w'' [] (Some (ErrOther (SysCreate name)))))
       \<and> (SysMkdirAll \<notin> denied md \<and> SysOpenExcl name \<in> denied md \<longrightarrow>
            snd (fst (CreateIfNotExists name md))
              = Some (Errorf ''failed to create marker file: %w'' []
                        (Some (ErrOther (SysOpenExcl name)))))
       \<and> (SysRemove name \<in> denied md \<longrightarrow>
            fst (Remove name md) = Some (ErrOther (SysRemove name)))
       \<and> (\<forall>c1. RunStep_switch ext (ui_print Header ''Running: %s'' [ArgS (ShortName info)] ctx)
                  (ShortName info) = Some (MarkerName info, None, c1) \<longrightarrow>
              fst (RunStep ext ctx (ShortName info)) = None
            \<and> (\<forall>e. fst (ClearFailure (MarkerName info) (Markers c1)) = Some e \<longrightarrow>
                  Msg Warning ''Failed to clear failure marker: %v'' [ArgV e]
                    \<in> set (UI (snd (RunStep ext ctx (ShortName info)))))
            \<and> (\<forall>e. fst (Create (MarkerName info)
                          (snd (ClearFailure (MarkerName info) (Markers c1)))) = Some e \<longrightarrow>
                  Msg Warning ''Failed to create completion marker: %v'' [ArgV e]
                    \<in> set (UI (snd (RunStep ext ctx (ShortName info))))))"
proof -
  have store: "(SysMkdirAll \<in> denied md \<longrightarrow>
            fst (Create name md)
              = Some (Errorf ''failed to create marker directory: %w'' [] (Some (ErrOther SysMkdirAll)))
          \<and> snd (fst (CreateIfNotExists name md))
              = Some (Errorf ''failed to create marker directory: %w'' [] (Some (ErrOther SysMkdirAll))))
       \<and> (SysMkdirAll \<notin> denied md \<and> SysCreate name \<in> denied md \<longrightarrow>
            fst (Create name md)
              = Some (Errorf ''failed to create marker file: %w'' [] (Some (ErrOther (SysCreate name)))))
       \<and> (SysMkdirAll \<notin> denied md \<and> SysOpenExcl name \<in> denied md \<longrightarrow>
            snd (fst (CreateIfNotExists name md))
              = Some (Errorf ''failed to create marker file: %w'' []
                        (Some (ErrOther (SysOpenExcl name)))))
       \<and> (SysRemove name \<in> denied md \<longrightarrow>
            fst (Remove name md) = Some (ErrOther (SysRemove name)))"
    using assms(1) by (auto simp: Create_def CreateIfNotExists_def Remove_def os_defs Let_def)
  have step: "RunStep ext ctx (ShortName info) = RunStep_record (ShortName info) (MarkerName info) (None, c1)"
    if "RunStep_switch ext (ui_print Header ''Running: %s'' [ArgS (ShortName info)] ctx)
          (ShortName info) = Some (MarkerName info, None, c1)" for c1
    using that by (simp add: RunStep_def)
  show ?thesis
    using store
    by (auto simp: step RunStep_record_success_nil
        intro: RunStep_record_clear_warning RunStep_record_create_warning)
qed

theorem marker_write_failures_witness:
  "fst (Create ''nfs-setup-complete'' readonly_store)
     = Some (Errorf ''failed to create marker directory: %w'' [] (Some (ErrOther SysMkdirAll)))
   \<and> fst (RunStep (stub_collaborators None) (context_on readonly_store) ''nfs'') = None
   \<and> Msg Warning ''Failed to create completion marker: %v''
        [ArgV (Errorf ''failed to create marker directory: %w'' [] (Some (ErrOther SysMkdirAll)))]
        \<in> set (UI (snd (RunStep (stub_collaborators None) (context_on readonly_store) ''nfs'')))"
  using marker_write_failures [of "''nfs-setup-complete''" "GetAllSteps ! 4" readonly_store
      "stub_collaborators None" "context_on readonly_store"]
  by (simp add: GetAllSteps_def run_defs readonly_store_def)

text \<open>
  C8 as stated does not hold: on a machine where the marker directory cannot be created,
  \<open>Create\<close> fails, yet \<open>RunStep\<close> of the step \<^verbatim>\<open>nfs\<close> with a successful body returns nil
  and prints the success message; the completion marker does not exist afterwards.
\<close>

theorem RunStep_swallows_marker_failure_counterexample:
  "fst (Create ''nfs-setup-complete'' readonly_store)
     = Some (Errorf ''failed to create marker directory: %w'' [] (Some (ErrOther SysMkdirAll)))
   \<and> fst (RunStep (stub_collaborators None) (context_on readonly_store) ''nfs'') = None
   \<and> \<not> has_entry (Markers (snd (RunStep (stub_collaborators None) (context_on readonly_store) ''nfs'')))
          ''nfs-setup-complete''
   \<and> UI (snd (RunStep (stub_collaborators None) (context_on readonly_store) ''nfs''))
       = [Msg Header ''Running: %s'' [ArgS ''nfs''],
          Msg Warning ''Failed to create completion marker: %v''
            [ArgV (Errorf ''failed to create marker directory: %w'' [] (Some (ErrOther SysMkdirAll)))],
          Msg Success (''Step '' @ [CHR 0x27] @ ''%s'' @ [CHR 0x27] @ '' completed successfully!'')
            [ArgS ''nfs'']]"
  by (simp add: run_defs readonly_store_def)

section \<open>Properties of the dry-run file system\<close>

text \<open>
  C6. With dry-run enabled, any sequence of calls of the ten mutating methods returns nil
  for every call and leaves the state of the wrapped file system as it was; the outcome
  is the same whatever the wrapped file system is, so it was not invoked. \<open>BackupFile\<close>,
  the eleventh method that writes, likewise returns a nil error and only prints. Each of
  the ten queries is a call of the wrapped file system's method of the same name, and
  returns the same result and state as with dry-run disabled.
\<close>

theorem DryRun_purity:
  assumes "dryRun d"
  shows "fst (DryRun_calls d calls s) = replicate (length calls) None
       \<and> disk (snd (DryRun_calls d calls s)) = disk s
       \<and> DryRun_calls (d\<lparr>fs := other\<rparr>) calls s = DryRun_calls d calls s
       \<and> DryRun_BackupFile d path s
           = ((path @ ''.backup.DRYRUN'', None),
              ui_Infof ''[DRY-RUN] Would create backup of: %s'' [ArgS path] s)
       \<and> DryRun_FileExists d path s = delegate (FileSystem_FileExists (fs d) path) s
       \<and> DryRun_DirectoryExists d path s = delegate (FileSystem_DirectoryExists (fs d) path) s
       \<and> DryRun_GetOwner d path s = delegate (FileSystem_GetOwner (fs d) path) s
       \<and> DryRun_GetPermissions d path s = delegate (FileSystem_GetPermissions (fs d) path) s
       \<and> DryRun_GetDiskUsage d path s = delegate (FileSystem_GetDiskUsage (fs d) path) s
       \<and> DryRun_GetDiskUsageHuman d path s = delegate (FileSystem_GetDiskUsageHuman (fs d) path) s
       \<and> DryRun_CountFiles d path s = delegate (FileSystem_CountFiles (fs d) path) s
       \<and> DryRun_ListDirectory d path s = delegate (FileSystem_ListDirectory (fs d) path) s
       \<and> DryRun_GetFileSize d path s = delegate (FileSystem_GetFileSize (fs d) path) s
       \<and> DryRun_IsMount d path s = delegate (FileSystem_IsMount (fs d) path) s
       \<and> DryRun_FileExists d path s = DryRun_FileExists (d\<lparr>dryRun := False\<rparr>) path s
       \<and> DryRun_DirectoryExists d path s = DryRun_DirectoryExists (d\<lparr>dryRun := False\<rparr>) path s
       \<and> DryRun_GetOwner d path s = DryRun_GetOwner (d\<lparr>dryRun := False\<rparr>) path s
       \<and> DryRun_GetPermissions d path s = DryRun_GetPermissions (d\<lparr>dryRun := False\<rparr>) path s
       \<and> DryRun_GetDiskUsage d path s = DryRun_GetDiskUsage (d\<lparr>dryRun := False\<rparr>) path s
       \<and> DryRun_GetDiskUsageHuman d path s
           = DryRun_GetDiskUsageHuman (d\<lparr>dryRun := False\<rparr>) path s
       \<and> DryRun_CountFiles d path s = DryRun_CountFiles (d\<lparr>dryRun := False\<rparr>) path s
       \<and> DryRun_ListDirectory d path s = DryRun_ListDirectory (d\<lparr>dryRun := False\<rparr>) path s
       \<and> DryRun_GetFileSize d path s = DryRun_GetFileSize (d\<lparr>dryRun := False\<rparr>) path s
       \<and> DryRun_IsMount d path s = DryRun_IsMount (d\<lparr>dryRun := False\<rparr>) path s"
  using DryRun_calls_dry [OF assms, of calls s other] DryRun_BackupFile_dry [OF assms, of path s]
  by (simp add: DryRun_query_defs)


theorem DryRun_purity_witness:
  "dryRun preview
   \<and> fst (DryRun_calls preview provisioning_calls untouched) = [None, None, None, None]
   \<and> disk (snd (DryRun_calls preview provisioning_calls untouched)) = {}
   \<and> disk (snd (DryRun_calls (preview\<lparr>dryRun := False\<rparr>) provisioning_calls untouched)) \<noteq> {}
   \<and> DryRun_FileExists preview ''/etc/fstab'' untouched
       = ((False, Some (External ''reached'')), untouched\<lparr>disk := {''/etc/fstab''}\<rparr>)
   \<and> DryRun_FileExists preview ''/etc/fstab'' untouched
       = DryRun_FileExists (preview\<lparr>dryRun := False\<rparr>) ''/etc/fstab'' untouched"
  using DryRun_purity [of preview provisioning_calls untouched tripwire_FileSystem "''/etc/fstab''"]
  by (simp add: preview_def untouched_def provisioning_calls_def tripwire_FileSystem_def
      tripwire_def delegate_def DryRun_mutating_defs DryRun_query_defs)


section \<open>Properties of the configuration defaults\<close>

text \<open>
  C9. \<open>GetOrDefault\<close> is a total function to strings. For \<^verbatim>\<open>NFS_MOUNT_POINT\<close> with fallback
  \<^verbatim>\<open>/custom\<close> it returns the stored value if there is one and the built-in default
  \<^verbatim>\<open>/mnt/nas\<close> otherwise. In general a stored value wins, then the entry of the defaults
  table, and the fallback is returned only for a key with neither.
\<close>

theorem GetOrDefault_resolution_order:
  "KeyNFSMountPoint = ''NFS_MOUNT_POINT''
   \<and> Defaults ''NFS_MOUNT_POINT'' = Some ''/mnt/nas''
   \<and> (\<forall>v. data c ''NFS_MOUNT_POINT'' = Some v \<longrightarrow>
         GetOrDefault c ''NFS_MOUNT_POINT'' ''/custom'' = v)
   \<and> (data c ''NFS_MOUNT_POINT'' = None \<longrightarrow>
         GetOrDefault c ''NFS_MOUNT_POINT'' ''/custom'' = ''/mnt/nas'')
   \<and> (\<forall>v. data c key = Some v \<longrightarrow> GetOrDefault c key fallback = v)
   \<and> (\<forall>dflt. data c key = None \<and> (key, dflt) \<in> set Defaults_table \<longrightarrow>
         GetOrDefault c key fallback = dflt)
   \<and> (data c key = None \<and> key \<notin> fst ` set Defaults_table \<longrightarrow>
         GetOrDefault c key fallback = fallback)"
proof -
  have d: "distinct (map fst Defaults_table)"
    by (simp add: Defaults_table_def KeyHomelabBaseDir_def KeyContainerRuntime_def
        KeyNFSMountPoint_def KeyNFSFstabPath_def KeyNetworkTestRetries_def
        KeyNetworkTestTimeout_def KeyConfigVersion_def KeyWGInterface_def KeyWGListenPort_def)
  have nfs: "Defaults ''NFS_MOUNT_POINT'' = Some ''/mnt/nas''"
    by (simp add: Defaults_def Defaults_table_def KeyHomelabBaseDir_def KeyContainerRuntime_def
        KeyNFSMountPoint_def)
  have tab: "(key, dflt) \<in> set Defaults_table \<Longrightarrow> Defaults key = Some dflt" for dflt
    using d by (simp add: Defaults_def)
  have none: "key \<notin> fst ` set Defaults_table \<Longrightarrow> Defaults key = None"
    by (simp add: Defaults_def map_of_eq_None_iff)
  have k: "KeyNFSMountPoint = ''NFS_MOUNT_POINT''"
    by (simp add: KeyNFSMountPoint_def)
  have stored: "data c k = Some v \<Longrightarrow> GetOrDefault c k fb = v" for k v fb
    by (simp add: GetOrDefault_def)
  have unset: "data c ''NFS_MOUNT_POINT'' = None \<Longrightarrow>
                 GetOrDefault c ''NFS_MOUNT_POINT'' ''/custom'' = ''/mnt/nas''"
    by (simp add: GetOrDefault_def nfs)
  have builtin: "data c key = None \<and> (key, dflt) \<in> set Defaults_table \<Longrightarrow>
                   GetOrDefault c key fallback = dflt" for dflt
    using tab [of dflt] by (simp add: GetOrDefault_def)
  have fb: "data c key = None \<and> key \<notin> fst ` set Defaults_table \<Longrightarrow>
              GetOrDefault c key fallback = fallback"
    using none by (simp add: GetOrDefault_def)
  show ?thesis
    using k nfs stored unset builtin fb by blast
qed

theorem GetOrDefault_resolution_order_witness:
  "GetOrDefault \<lparr>data = [''NFS_MOUNT_POINT'' \<mapsto> ''/mnt/media'']\<rparr> ''NFS_MOUNT_POINT'' ''/custom''
     = ''/mnt/media''
   \<and> GetOrDefault \<lparr>data = Map.empty\<rparr> ''NFS_MOUNT_POINT'' ''/custom'' = ''/mnt/nas''
   \<and> GetOrDefault \<lparr>data = Map.empty\<rparr> ''WG_CONFIG_PATH'' ''/custom'' = ''/custom''"
proof (intro conjI)
  show "GetOrDefault \<lparr>data = [''NFS_MOUNT_POINT'' \<mapsto> ''/mnt/media'']\<rparr>
          ''NFS_MOUNT_POINT'' ''/custom'' = ''/mnt/media''"
    by (rule GetOrDefault_resolution_order
          [THEN conjunct2, THEN conjunct2, THEN conjunct1, rule_format]) simp
  show "GetOrDefault \<lparr>data = Map.empty\<rparr> ''NFS_MOUNT_POINT'' ''/custom'' = ''/mnt/nas''"
    by (rule GetOrDefault_resolution_order
          [THEN conjunct2, THEN conjunct2, THEN conjunct2, THEN conjunct1, rule_format]) simp
  show "GetOrDefault \<lparr>data = Map.empty\<rparr> ''WG_CONFIG_PATH'' ''/custom'' = ''/custom''"
    by (rule GetOrDefault_resolution_order
          [THEN conjunct2, THEN conjunct2, THEN conjunct2, THEN conjunct2, THEN conjunct2,
           THEN conjunct2, rule_format])
       (simp add: Defaults_table_def KeyHomelabBaseDir_def KeyContainerRuntime_def
          KeyNFSMountPoint_def KeyNFSFstabPath_def KeyNetworkTestRetries_def
          KeyNetworkTestTimeout_def KeyConfigVersion_def KeyWGInterface_def KeyWGListenPort_def)
qed

end
